theory Spec2Isabelle
  imports Main "HOL-Library.Sublist" "HOL-Library.Multiset"
begin

section \<open>JavaScript values seen by the recipe proxy\<close>

text \<open>
  The edge function \<^verbatim>\<open>generate-recipe\<close> is untyped JavaScript: the request body, the
  upstream reply and the model's message content are whatever \<^verbatim>\<open>JSON.parse\<close> returns.
  A JSON value is modelled as it is at run time. The number type is a parameter \<open>'n\<close>:
  the handler never computes with a number, it only turns one into text.
  An object is the list of its properties in enumeration order; \<^verbatim>\<open>JSON.parse\<close> never
  returns an object with a repeated key. \<^verbatim>\<open>undefined\<close> is \<open>None\<close> of \<open>'n json option\<close>.
\<close>

datatype 'n json =
    JNull
  | JBool bool
  | JNumber 'n
  | JString string
  | JArray "'n json list"
  | JObject "(string \<times> 'n json) list"

text \<open>
  What a \<^verbatim>\<open>throw\<close> carries: an \<^verbatim>\<open>Error\<close> instance with its message, or any other
  value (the \<^verbatim>\<open>instanceof Error\<close> test of the handler's catch tells them apart).
\<close>

datatype thrown = Error string | Thrown_other

text \<open>
  The TypeErrors the engine raises by itself. Their wording is the engine's, so it is
  a parameter of the run-time environment below.
\<close>

datatype type_error =
    Read_of_undefined string
  | Read_of_null string
  | Not_a_function string
  | Destructure_of_null string

record request =
  req_method :: string
  req_body :: string

record fetch_request =
  url :: string
  fetch_method :: string
  fetch_headers :: "(string \<times> string) list"
  fetch_body :: string

text \<open>The upstream reply, fully received: its status line and its body text.\<close>

record upstream_response =
  up_status :: nat
  up_body :: string

record response =
  status :: nat
  headers :: "(string \<times> string) list"
  body :: "string option"

text \<open>
  Everything the handler calls and does not define: \<^verbatim>\<open>Deno.env.get\<close>, \<^verbatim>\<open>fetch\<close>,
  \<^verbatim>\<open>JSON.parse\<close>, \<^verbatim>\<open>JSON.stringify\<close>, the text of a number and the wording of the
  engine's TypeErrors. A failing call returns \<open>Inl\<close> of what it throws.
\<close>

record 'n runtime =
  env_get :: "string \<Rightarrow> string option"
  fetch :: "fetch_request \<Rightarrow> thrown + upstream_response"
  JSON_parse :: "string \<Rightarrow> thrown + 'n json"
  JSON_stringify :: "'n json \<Rightarrow> string"
  number_to_string :: "'n \<Rightarrow> string"
  type_error_message :: "type_error \<Rightarrow> string"

text \<open>
  The handler's observable effects, in the order it performs them: the four console
  lines and the upstream call.
\<close>

datatype 'n event =
    Log_generating "'n json option"
  | Fetch fetch_request
  | Log_gateway_error nat string
  | Log_response_received
  | Log_handler_error thrown

subsection \<open>Property reads, \<^verbatim>\<open>join\<close> and \<^verbatim>\<open>ToString\<close>\<close>

text \<open>
  \<open>get_named v k\<close> is \<^verbatim>\<open>v.k\<close> for the names the handler reads (\<^verbatim>\<open>ingredients\<close>,
  \<^verbatim>\<open>choices\<close>, \<^verbatim>\<open>message\<close>, \<^verbatim>\<open>content\<close>): none of them is a property of a built-in
  prototype, so only an object can have one. Reading from \<^verbatim>\<open>undefined\<close> or
  \<^verbatim>\<open>null\<close> throws.
\<close>

fun get_named :: "'n json option \<Rightarrow> string \<Rightarrow> type_error + 'n json option" where
  "get_named None k = Inl (Read_of_undefined k)"
| "get_named (Some JNull) k = Inl (Read_of_null k)"
| "get_named (Some (JObject kvs)) k = Inr (map_of kvs k)"
| "get_named (Some v) k = Inr None"

text \<open>\<open>get_index0 v\<close> is \<^verbatim>\<open>v[0]\<close>: the first element of an array, the first
  character of a string, the property \<^verbatim>\<open>"0"\<close> of an object.\<close>

fun get_index0 :: "'n json option \<Rightarrow> type_error + 'n json option" where
  "get_index0 None = Inl (Read_of_undefined ''0'')"
| "get_index0 (Some JNull) = Inl (Read_of_null ''0'')"
| "get_index0 (Some (JArray xs)) = Inr (case xs of [] \<Rightarrow> None | x # _ \<Rightarrow> Some x)"
| "get_index0 (Some (JString s)) = Inr (case s of [] \<Rightarrow> None | c # _ \<Rightarrow> Some (JString [c]))"
| "get_index0 (Some (JObject kvs)) = Inr (map_of kvs ''0'')"
| "get_index0 (Some v) = Inr None"

fun join_with :: "string \<Rightarrow> string list \<Rightarrow> string" where
  "join_with sep [] = []"
| "join_with sep [x] = x"
| "join_with sep (x # y # ys) = x @ sep @ join_with sep (y # ys)"

text \<open>\<^verbatim>\<open>ToString\<close> of a JSON value; an array is joined by commas, its \<^verbatim>\<open>null\<close>
  elements as the empty string.\<close>

fun ToString :: "('n \<Rightarrow> string) \<Rightarrow> 'n json \<Rightarrow> string" where
  "ToString nts JNull = ''null''"
| "ToString nts (JBool b) = (if b then ''true'' else ''false'')"
| "ToString nts (JNumber n) = nts n"
| "ToString nts (JString s) = s"
| "ToString nts (JArray xs) =
     join_with '','' (map (\<lambda>x. case x of JNull \<Rightarrow> [] | _ \<Rightarrow> ToString nts x) xs)"
| "ToString nts (JObject kvs) = ''[object Object]''"

definition Array_join :: "('n \<Rightarrow> string) \<Rightarrow> 'n json list \<Rightarrow> string \<Rightarrow> string" where
  "Array_join nts xs sep =
     join_with sep (map (\<lambda>x. case x of JNull \<Rightarrow> [] | _ \<Rightarrow> ToString nts x) xs)"

text \<open>\<^verbatim>\<open>ingredients.join(sep)\<close>: only an array has the method.\<close>

fun call_join :: "('n \<Rightarrow> string) \<Rightarrow> 'n json option \<Rightarrow> string \<Rightarrow> type_error + string" where
  "call_join nts None sep = Inl (Read_of_undefined ''join'')"
| "call_join nts (Some JNull) sep = Inl (Read_of_null ''join'')"
| "call_join nts (Some (JArray xs)) sep = Inr (Array_join nts xs sep)"
| "call_join nts (Some v) sep = Inl (Not_a_function ''ingredients.join'')"

text \<open>\<^verbatim>\<open>const { ingredients } = v\<close> for the value \<open>v\<close> that \<^verbatim>\<open>req.json()\<close> returned.\<close>

definition destructure_ingredients :: "'n json \<Rightarrow> type_error + 'n json option" where
  "destructure_ingredients v =
     (case v of JNull \<Rightarrow> Inl (Destructure_of_null ''ingredients'')
      | _ \<Rightarrow> get_named (Some v) ''ingredients'')"

text \<open>The text of a status code inside a template literal.\<close>

fun decimal :: "nat \<Rightarrow> string" where
  "decimal n =
     (if n < 10 then [''0123456789'' ! n]
      else decimal (n div 10) @ [''0123456789'' ! (n mod 10)])"

declare decimal.simps [simp del]

text \<open>\<^verbatim>\<open>JSON.parse(c)\<close> of a run-time value: the argument is converted to text first.\<close>

definition JSON_parse_value :: "'n runtime \<Rightarrow> 'n json option \<Rightarrow> thrown + 'n json" where
  "JSON_parse_value rt c =
     JSON_parse rt (case c of None \<Rightarrow> ''undefined'' | Some v \<Rightarrow> ToString (number_to_string rt) v)"

section \<open>The handler of \<^verbatim>\<open>generate-recipe\<close>\<close>

definition corsHeaders :: "(string \<times> string) list" where
  "corsHeaders =
     [(''Access-Control-Allow-Origin'', ''*''),
      (''Access-Control-Allow-Headers'', ''authorization, x-client-info, apikey, content-type'')]"

text \<open>\<^verbatim>\<open>{ ...corsHeaders, 'Content-Type': 'application/json' }\<close>\<close>

definition json_headers :: "(string \<times> string) list" where
  "json_headers = corsHeaders @ [(''Content-Type'', ''application/json'')]"

definition systemPrompt :: string where
  "systemPrompt =
     ''You are an expert chef AI that creates delicious recipes based on available ingredients. \<newline>'' @
     ''When given a list of ingredients, create a complete, detailed recipe that:\<newline>'' @
     ''- Has a creative and appetizing name\<newline>'' @
     ''- Lists all ingredients with measurements\<newline>'' @
     ''- Provides clear step-by-step cooking instructions\<newline>'' @
     ''- Includes estimated cooking time (in minutes)\<newline>'' @
     ''- Specifies difficulty level (Easy, Medium, or Hard)\<newline>'' @
     ''- Includes nutritional macros per serving (calories, protein, carbs, fats)\<newline>'' @
     ''- Makes the most of the provided ingredients\<newline>'' @
     ''\<newline>'' @
     ''Format your response as JSON with this structure:\<newline>'' @
     ''{\<newline>'' @
     ''  \"name\": \"Recipe Name\",\<newline>'' @
     ''  \"cookingTime\": 30,\<newline>'' @
     ''  \"difficulty\": \"Easy\",\<newline>'' @
     ''  \"servings\": 4,\<newline>'' @
     ''  \"macros\": {\<newline>'' @
     ''    \"calories\": 450,\<newline>'' @
     ''    \"protein\": 35,\<newline>'' @
     ''    \"carbs\": 40,\<newline>'' @
     ''    \"fats\": 15\<newline>'' @
     ''  },\<newline>'' @
     ''  \"ingredients\": [\"ingredient 1\", \"ingredient 2\"],\<newline>'' @
     ''  \"instructions\": [\"step 1\", \"step 2\"]\<newline>'' @
     ''}''"

text \<open>The user turn: \<^verbatim>\<open>`Create a recipe using these ingredients: ${ingredients.join(', ')}`\<close>,
  given the joined text.\<close>

definition user_prompt :: "string \<Rightarrow> string" where
  "user_prompt joined = ''Create a recipe using these ingredients: '' @ joined"

definition request_payload :: "string \<Rightarrow> 'n json" where
  "request_payload joined =
     JObject
       [(''model'', JString ''google/gemini-2.5-flash''),
        (''messages'',
           JArray
             [JObject [(''role'', JString ''system''), (''content'', JString systemPrompt)],
              JObject [(''role'', JString ''user''), (''content'', JString (user_prompt joined))]]),
        (''response_format'', JObject [(''type'', JString ''json_object'')])]"

definition upstream_request :: "'n runtime \<Rightarrow> string \<Rightarrow> string \<Rightarrow> fetch_request" where
  "upstream_request rt key joined =
     \<lparr>url = ''https://ai.gateway.lovable.dev/v1/chat/completions'',
      fetch_method = ''POST'',
      fetch_headers =
        [(''Authorization'', ''Bearer '' @ key), (''Content-Type'', ''application/json'')],
      fetch_body = JSON_stringify rt (request_payload joined)\<rparr>"

text \<open>\<^verbatim>\<open>response.ok\<close>\<close>

definition response_ok :: "upstream_response \<Rightarrow> bool" where
  "response_ok r = (200 \<le> up_status r \<and> up_status r \<le> 299)"

text \<open>\<^verbatim>\<open>new Response(JSON.stringify({ error: msg }), { status: s, headers: {...} })\<close>\<close>

definition error_response :: "'n runtime \<Rightarrow> nat \<Rightarrow> string \<Rightarrow> response" where
  "error_response rt s msg =
     \<lparr>status = s, headers = json_headers,
      body = Some (JSON_stringify rt (JObject [(''error'', JString msg)]))\<rparr>"

text \<open>\<^verbatim>\<open>data.choices[0].message.content\<close>\<close>

definition message_content :: "'n json \<Rightarrow> type_error + 'n json option" where
  "message_content data =
     (case get_named (Some data) ''choices'' of
        Inl te \<Rightarrow> Inl te
      | Inr choices \<Rightarrow>
          (case get_index0 choices of
             Inl te \<Rightarrow> Inl te
           | Inr choice \<Rightarrow>
               (case get_named choice ''message'' of
                  Inl te \<Rightarrow> Inl te
                | Inr msg \<Rightarrow> get_named msg ''content'')))"

text \<open>
  The rest of the \<^verbatim>\<open>try\<close> block once \<^verbatim>\<open>fetch\<close> has resolved with \<open>r\<close>: what
  is returned (\<open>Inr\<close>) or thrown (\<open>Inl\<close>), and the console lines written on the way.
\<close>

definition respond_upstream ::
  "'n runtime \<Rightarrow> upstream_response \<Rightarrow> (thrown + response) \<times> 'n event list" where
  "respond_upstream rt r =
     (if \<not> response_ok r then
        (let errorText = up_body r;
             logged = [Log_gateway_error (up_status r) errorText]
         in if up_status r = 429 then
              (Inr (error_response rt 429 ''Rate limit exceeded. Please try again later.''), logged)
            else if up_status r = 402 then
              (Inr (error_response rt 402
                      ''Payment required. Please add credits to your workspace.''), logged)
            else (Inl (Error (''AI gateway error: '' @ decimal (up_status r))), logged))
      else
        (case JSON_parse rt (up_body r) of
           Inl e \<Rightarrow> (Inl e, [])
         | Inr data \<Rightarrow>
             (case message_content data of
                Inl te \<Rightarrow> (Inl (Error (type_error_message rt te)), [Log_response_received])
              | Inr content \<Rightarrow>
                  (case JSON_parse_value rt content of
                     Inl e \<Rightarrow> (Inl e, [Log_response_received])
                   | Inr recipeData \<Rightarrow>
                       (Inr \<lparr>status = 200, headers = json_headers,
                             body = Some (JSON_stringify rt (JObject [(''recipe'', recipeData)]))\<rparr>,
                        [Log_response_received])))))"

text \<open>The \<^verbatim>\<open>try\<close> block.\<close>

definition try_block :: "'n runtime \<Rightarrow> request \<Rightarrow> (thrown + response) \<times> 'n event list" where
  "try_block rt req =
     (case JSON_parse rt (req_body req) of
        Inl e \<Rightarrow> (Inl e, [])
      | Inr parsed \<Rightarrow>
          (case destructure_ingredients parsed of
             Inl te \<Rightarrow> (Inl (Error (type_error_message rt te)), [])
           | Inr ingredients \<Rightarrow>
               (case env_get rt ''LOVABLE_API_KEY'' of
                  None \<Rightarrow>
                    (Inl (Error ''LOVABLE_API_KEY is not configured''), [Log_generating ingredients])
                | Some LOVABLE_API_KEY \<Rightarrow>
                    if LOVABLE_API_KEY = [] then
                      (Inl (Error ''LOVABLE_API_KEY is not configured''),
                       [Log_generating ingredients])
                    else
                      (case call_join (number_to_string rt) ingredients '', '' of
                         Inl te \<Rightarrow>
                           (Inl (Error (type_error_message rt te)), [Log_generating ingredients])
                       | Inr joined \<Rightarrow>
                           (let call = upstream_request rt LOVABLE_API_KEY joined
                            in case fetch rt call of
                                 Inl e \<Rightarrow> (Inl e, [Log_generating ingredients, Fetch call])
                               | Inr r \<Rightarrow>
                                   (fst (respond_upstream rt r),
                                    [Log_generating ingredients, Fetch call]
                                      @ snd (respond_upstream rt r)))))))"

text \<open>
  The handler passed to \<^verbatim>\<open>serve\<close>: the pre-flight short cut, the \<^verbatim>\<open>try\<close> block
  and the \<^verbatim>\<open>catch\<close> that turns whatever was thrown into a 500.
\<close>

definition catch_clause :: "'n runtime \<Rightarrow> thrown \<Rightarrow> response \<times> 'n event list" where
  "catch_clause rt error =
     (error_response rt 500
        (case error of Error msg \<Rightarrow> msg | Thrown_other \<Rightarrow> ''An error occurred''),
      [Log_handler_error error])"

definition serve_handler :: "'n runtime \<Rightarrow> request \<Rightarrow> response \<times> 'n event list" where
  "serve_handler rt req =
     (if req_method req = ''OPTIONS'' then
        (\<lparr>status = 200, headers = corsHeaders, body = None\<rparr>, [])
      else
        (case try_block rt req of
           (Inr resp, evs) \<Rightarrow> (resp, evs)
         | (Inl error, evs) \<Rightarrow>
             (fst (catch_clause rt error), evs @ snd (catch_clause rt error))))"

text \<open>\<^verbatim>\<open>serve(handler)\<close>: the process answers each request it receives with the
  handler, in the environment of that moment.\<close>

definition serve :: "('n runtime \<times> request) list \<Rightarrow> (response \<times> 'n event list) list" where
  "serve invocations = map (\<lambda>(rt, req). serve_handler rt req) invocations"

text \<open>The reply of the upstream call of one invocation, if the handler made one.\<close>

definition upstream_reply :: "'n runtime \<Rightarrow> request \<Rightarrow> (thrown + upstream_response) option" where
  "upstream_reply rt req =
     (case [call. Fetch call \<leftarrow> snd (serve_handler rt req)] of
        [] \<Rightarrow> None
      | call # _ \<Rightarrow> Some (fetch rt call))"

text \<open>The same environment, except that every upstream reply carries the body text \<open>b\<close>.\<close>

definition with_upstream_body :: "'n runtime \<Rightarrow> string \<Rightarrow> 'n runtime" where
  "with_upstream_body rt b =
     rt\<lparr>fetch := (\<lambda>call. case fetch rt call of
                                Inl e \<Rightarrow> Inl e
                              | Inr r \<Rightarrow> Inr (r\<lparr>up_body := b\<rparr>))\<rparr>"

section \<open>The pages that store and list recipes\<close>

text \<open>The \<^verbatim>\<open>Recipe\<close> interface of \<^verbatim>\<open>Recipe.tsx\<close>.\<close>

record 'n macros =
  calories :: 'n
  protein :: 'n
  carbs :: 'n
  fats :: 'n

record 'n Recipe =
  name :: string
  cookingTime :: 'n
  difficulty :: string
  servings :: 'n
  macros :: "'n macros"
  ingredients :: "string list"
  instructions :: "string list"

type_synonym uuid = string

text \<open>A row of the table \<^verbatim>\<open>public.saved_recipes\<close>, column by column as the
  migration creates it.\<close>

record 'n saved_recipe =
  row_id :: uuid
  user_id :: uuid
  recipe_name :: string
  recipe_data :: "'n Recipe"
  is_favorite :: bool
  created_at :: nat
  updated_at :: nat

text \<open>
  What one call to the hosted store depends on: the signed-in user
  (\<^verbatim>\<open>supabase.auth.getUser()\<close>, which is also \<^verbatim>\<open>auth.uid()\<close> of the row-level policies),
  the values the column defaults \<^verbatim>\<open>gen_random_uuid()\<close> and \<^verbatim>\<open>now()\<close> produce, and
  the message of a transport or server failure, if there is one.
\<close>

record store_call =
  current_user :: "uuid option"
  gen_random_uuid :: uuid
  now :: nat
  failure :: "string option"

text \<open>
  \<^verbatim>\<open>supabase.from("saved_recipes").insert({user_id, recipe_name, recipe_data, is_favorite})\<close>:
  the insert policy demands \<^verbatim>\<open>auth.uid() = user_id\<close>, \<^verbatim>\<open>id\<close> is the primary key, and
  the remaining columns take their defaults. The result is the error message or the
  table with the new row.
\<close>

definition new_row ::
  "store_call \<Rightarrow> uuid \<Rightarrow> string \<Rightarrow> 'n Recipe \<Rightarrow> bool \<Rightarrow> 'n saved_recipe" where
  "new_row call uid rname rdata fav =
     \<lparr>row_id = gen_random_uuid call, user_id = uid, recipe_name = rname,
      recipe_data = rdata, is_favorite = fav,
      created_at = now call, updated_at = now call\<rparr>"

definition insert_row ::
  "store_call \<Rightarrow> uuid \<Rightarrow> string \<Rightarrow> 'n Recipe \<Rightarrow> bool \<Rightarrow> 'n saved_recipe list
     \<Rightarrow> string + 'n saved_recipe list" where
  "insert_row call uid rname rdata fav table =
     (case failure call of
        Some msg \<Rightarrow> Inl msg
      | None \<Rightarrow>
          if current_user call \<noteq> Some uid then
            Inl ''new row violates row-level security policy for table saved_recipes''
          else if gen_random_uuid call \<in> row_id ` set table then
            Inl ''duplicate key value violates unique constraint saved_recipes_pkey''
          else Inr (table @ [new_row call uid rname rdata fav]))"

record toast =
  title :: string
  description :: string
  destructive :: bool

text \<open>The state of the \<^verbatim>\<open>Recipe\<close> page and the toasts it has shown.\<close>

record 'n recipe_page =
  recipe :: "'n Recipe option"
  isSaving :: bool
  isFavoriting :: bool
  isSaved :: bool
  isFavorited :: bool
  toasts :: "toast list"

text \<open>\<^verbatim>\<open>error.message || fallback\<close>\<close>

definition message_or :: "string \<Rightarrow> string \<Rightarrow> string" where
  "message_or msg fallback = (if msg = [] then fallback else msg)"

text \<open>
  \<^verbatim>\<open>handleSaveRecipe\<close>, from the click to the end of its \<^verbatim>\<open>finally\<close>: the page
  and the table afterwards.
\<close>

definition handleSaveRecipe ::
  "store_call \<Rightarrow> 'n recipe_page \<times> 'n saved_recipe list
     \<Rightarrow> 'n recipe_page \<times> 'n saved_recipe list" where
  "handleSaveRecipe call st =
     (case st of (page, table) \<Rightarrow>
        (case recipe page of
           None \<Rightarrow> (page, table)
         | Some r \<Rightarrow>
             (case (case current_user call of
                      None \<Rightarrow> Inl ''Not authenticated''
                    | Some uid \<Rightarrow> insert_row call uid (name r) r False table) of
                Inl msg \<Rightarrow>
                  (page\<lparr>isSaving := False,
                        toasts := toasts page @
                          [\<lparr>title = ''Error'',
                            description = message_or msg ''Failed to save recipe.'',
                            destructive = True\<rparr>]\<rparr>,
                   table)
              | Inr table' \<Rightarrow>
                  (page\<lparr>isSaving := False, isSaved := True,
                        toasts := toasts page @
                          [\<lparr>title = ''Recipe saved!'',
                            description = ''You can find it in your saved recipes.'',
                            destructive = False\<rparr>]\<rparr>,
                   table'))))"

text \<open>\<^verbatim>\<open>handleFavoriteRecipe\<close>\<close>

definition handleFavoriteRecipe ::
  "store_call \<Rightarrow> 'n recipe_page \<times> 'n saved_recipe list
     \<Rightarrow> 'n recipe_page \<times> 'n saved_recipe list" where
  "handleFavoriteRecipe call st =
     (case st of (page, table) \<Rightarrow>
        (case recipe page of
           None \<Rightarrow> (page, table)
         | Some r \<Rightarrow>
             (case (case current_user call of
                      None \<Rightarrow> Inl ''Not authenticated''
                    | Some uid \<Rightarrow> insert_row call uid (name r) r True table) of
                Inl msg \<Rightarrow>
                  (page\<lparr>isFavoriting := False,
                        toasts := toasts page @
                          [\<lparr>title = ''Error'',
                            description = message_or msg ''Failed to add to favorites.'',
                            destructive = True\<rparr>]\<rparr>,
                   table)
              | Inr table' \<Rightarrow>
                  (page\<lparr>isFavoriting := False, isFavorited := True,
                        toasts := toasts page @
                          [\<lparr>title = ''Added to favorites!'',
                            description = ''Recipe saved to your favorites.'',
                            destructive = False\<rparr>]\<rparr>,
                   table'))))"

text \<open>
  \<^verbatim>\<open>fetchSavedRecipes\<close> of the \<^verbatim>\<open>SavedRecipes\<close> page: the rows of the signed-in user,
  newest first (rows of one instant come in an order the store chooses; here the later
  insert first). Without a user, and on a failure, the page keeps its empty list.
\<close>

definition fetchSavedRecipes :: "store_call \<Rightarrow> 'n saved_recipe list \<Rightarrow> 'n saved_recipe list" where
  "fetchSavedRecipes call table =
     (case current_user call of
        None \<Rightarrow> []
      | Some uid \<Rightarrow>
          (case failure call of
             Some msg \<Rightarrow> []
           | None \<Rightarrow> rev (sort_key created_at (filter (\<lambda>r. user_id r = uid) table))))"

text \<open>The two tabs: \<^verbatim>\<open>recipes.filter(r => !r.is_favorite)\<close> and
  \<^verbatim>\<open>recipes.filter(r => r.is_favorite)\<close>.\<close>

definition savedRecipes :: "'n saved_recipe list \<Rightarrow> 'n saved_recipe list" where
  "savedRecipes recipes = filter (\<lambda>r. \<not> is_favorite r) recipes"

definition favoriteRecipes :: "'n saved_recipe list \<Rightarrow> 'n saved_recipe list" where
  "favoriteRecipes recipes = filter (\<lambda>r. is_favorite r) recipes"

section \<open>A concrete environment\<close>

text \<open>
  A small JSON writer and a reader that recognises the documents of a given list, to
  run the handler on concrete requests. Numbers are naturals here.
\<close>

definition quote :: "string \<Rightarrow> string" where
  "quote s =
     [CHR 0x22] @
     concat (map (\<lambda>c. if c = CHR 0x22 then [CHR 0x5C, CHR 0x22]
                        else if c = CHR 0x5C then [CHR 0x5C, CHR 0x5C]
                        else if c = CHR 0x0A then [CHR 0x5C, CHR ''n'']
                        else [c]) s) @
     [CHR 0x22]"

fun sample_stringify :: "nat json \<Rightarrow> string" where
  "sample_stringify JNull = ''null''"
| "sample_stringify (JBool b) = (if b then ''true'' else ''false'')"
| "sample_stringify (JNumber n) = decimal n"
| "sample_stringify (JString s) = quote s"
| "sample_stringify (JArray xs) = ''['' @ join_with '','' (map sample_stringify xs) @ '']''"
| "sample_stringify (JObject kvs) =
     ''{'' @ join_with '','' (map (\<lambda>(k, v). quote k @ '':'' @ sample_stringify v) kvs) @ ''}''"

definition sample_parse :: "nat json list \<Rightarrow> string \<Rightarrow> thrown + nat json" where
  "sample_parse documents s =
     (case find (\<lambda>v. sample_stringify v = s) documents of
        None \<Rightarrow> Inl (Error ''Unexpected token'')
      | Some v \<Rightarrow> Inr v)"

text \<open>A chat completion whose first choice carries the given message content.\<close>

definition sample_completion :: "string \<Rightarrow> nat json" where
  "sample_completion content =
     JObject [(''choices'',
       JArray [JObject [(''message'',
         JObject [(''role'', JString ''assistant''), (''content'', JString content)])]])]"

text \<open>A parseable value that is not a full recipe: it has a name and a cooking time only.\<close>

definition sample_recipe :: "nat json" where
  "sample_recipe = JObject [(''name'', JString ''Chicken rice''), (''cookingTime'', JNumber 30)]"

definition sample_documents :: "nat json list" where
  "sample_documents =
     [JObject [(''ingredients'', JArray [JString ''chicken'', JString ''rice''])],
      JObject [(''ingredients'', JArray [])],
      sample_completion (sample_stringify sample_recipe),
      sample_completion ''Sorry, no recipe today'',
      sample_recipe]"

definition sample_runtime :: "string option \<Rightarrow> upstream_response \<Rightarrow> nat runtime" where
  "sample_runtime key reply =
     \<lparr>env_get = (\<lambda>k. if k = ''LOVABLE_API_KEY'' then key else None),
      fetch = (\<lambda>call. Inr reply),
      JSON_parse = sample_parse sample_documents,
      JSON_stringify = sample_stringify,
      number_to_string = decimal,
      type_error_message = (\<lambda>te. ''TypeError'')\<rparr>"

definition chicken_rice_request :: request where
  "chicken_rice_request =
     \<lparr>req_method = ''POST'', req_body = ''{\"ingredients\":[\"chicken\",\"rice\"]}''\<rparr>"

definition no_ingredients_request :: request where
  "no_ingredients_request = \<lparr>req_method = ''POST'', req_body = ''{\"ingredients\":[]}''\<rparr>"

definition preflight_request :: request where
  "preflight_request = \<lparr>req_method = ''OPTIONS'', req_body = []\<rparr>"

definition recipe_reply :: upstream_response where
  "recipe_reply =
     \<lparr>up_status = 200,
      up_body = sample_stringify (sample_completion (sample_stringify sample_recipe))\<rparr>"

definition prose_reply :: upstream_response where
  "prose_reply =
     \<lparr>up_status = 200,
      up_body = sample_stringify (sample_completion ''Sorry, no recipe today'')\<rparr>"

definition failure_reply :: "nat \<Rightarrow> upstream_response" where
  "failure_reply code = \<lparr>up_status = code, up_body = ''upstream detail''\<rparr>"

text \<open>A recipe on the \<^verbatim>\<open>Recipe\<close> page, and three calls to the store by one user.\<close>

definition chicken_rice :: "nat Recipe" where
  "chicken_rice =
     \<lparr>name = ''Chicken rice'', cookingTime = 30, difficulty = ''Easy'', servings = 4,
      macros = \<lparr>calories = 450, protein = 35, carbs = 40, fats = 15\<rparr>,
      ingredients = [''chicken'', ''rice''],
      instructions = [''Cook the rice'', ''Fry the chicken'']\<rparr>"

definition fresh_page :: "nat recipe_page" where
  "fresh_page =
     \<lparr>recipe = Some chicken_rice, isSaving = False, isFavoriting = False,
      isSaved = False, isFavorited = False, toasts = []\<rparr>"

definition store_call_at :: "uuid \<Rightarrow> nat \<Rightarrow> store_call" where
  "store_call_at new_id instant =
     \<lparr>current_user = Some ''user-1'', gen_random_uuid = new_id, now = instant, failure = None\<rparr>"

section \<open>Properties of the handler\<close>

subsection \<open>The handler around the upstream call\<close>

lemma respond_upstream_no_fetch:
  "[call. Fetch call \<leftarrow> snd (respond_upstream rt r)] = []"
  by (simp add: respond_upstream_def Let_def split: sum.splits)

lemma upstream_reply_SomeD:
  assumes "upstream_reply rt req = Some x"
  shows "req_method req \<noteq> ''OPTIONS'' \<and>
         (\<exists>ingredients call.
            fetch rt call = x \<and>
            try_block rt req =
              (case x of
                 Inl e \<Rightarrow> (Inl e, [Log_generating ingredients, Fetch call])
               | Inr r \<Rightarrow> (fst (respond_upstream rt r),
                           [Log_generating ingredients, Fetch call] @ snd (respond_upstream rt r))))"
proof -
  have m: "req_method req \<noteq> ''OPTIONS''"
    using assms by (auto simp: upstream_reply_def serve_handler_def)
  obtain res evs where tb: "try_block rt req = (res, evs)"
    by (cases "try_block rt req")
  have ev: "[call. Fetch call \<leftarrow> snd (serve_handler rt req)] = [call. Fetch call \<leftarrow> evs]"
    using m tb by (cases res) (simp_all add: serve_handler_def catch_clause_def)
  have fx: "(case [call. Fetch call \<leftarrow> evs] of [] \<Rightarrow> None | call # _ \<Rightarrow> Some (fetch rt call)) = Some x"
    using assms ev by (simp add: upstream_reply_def)
  have "\<exists>ingredients call.
            fetch rt call = x \<and>
            (res, evs) =
              (case x of
                 Inl e \<Rightarrow> (Inl e, [Log_generating ingredients, Fetch call])
               | Inr r \<Rightarrow> (fst (respond_upstream rt r),
                           [Log_generating ingredients, Fetch call] @ snd (respond_upstream rt r)))"
    using tb fx
    by (auto simp: try_block_def Let_def respond_upstream_no_fetch
        split: sum.splits option.splits if_splits)
  with m tb show ?thesis by simp
qed

text \<open>What the handler answers once the upstream has replied with \<open>r\<close>.\<close>

lemma serve_handler_after_reply:
  assumes "upstream_reply rt req = Some (Inr r)"
  shows "\<exists>pre. serve_handler rt req =
           (case fst (respond_upstream rt r) of
              Inr resp \<Rightarrow> (resp, pre @ snd (respond_upstream rt r))
            | Inl e \<Rightarrow> (fst (catch_clause rt e),
                        pre @ snd (respond_upstream rt r) @ snd (catch_clause rt e)))"
proof -
  from upstream_reply_SomeD [OF assms] obtain ing call where
    m: "req_method req \<noteq> ''OPTIONS''" and
    tb: "try_block rt req =
           (fst (respond_upstream rt r),
            [Log_generating ing, Fetch call] @ snd (respond_upstream rt r))"
    by auto
  show ?thesis
    by (rule exI [of _ "[Log_generating ing, Fetch call]"])
       (simp add: serve_handler_def m tb split: sum.splits)
qed

subsection \<open>Running the concrete environment\<close>

lemma sample_parse_chicken_rice:
  "sample_parse sample_documents (req_body chicken_rice_request) =
     Inr (JObject [(''ingredients'', JArray [JString ''chicken'', JString ''rice''])])"
  by code_simp

lemma sample_try_block:
  "key \<noteq> [] \<Longrightarrow> try_block (sample_runtime (Some key) reply) chicken_rice_request =
     (fst (respond_upstream (sample_runtime (Some key) reply) reply),
      [Log_generating (Some (JArray [JString ''chicken'', JString ''rice''])),
       Fetch (upstream_request (sample_runtime (Some key) reply) key ''chicken, rice'')]
        @ snd (respond_upstream (sample_runtime (Some key) reply) reply))"
  using sample_parse_chicken_rice
  by (simp add: try_block_def sample_runtime_def destructure_ingredients_def Array_join_def)

lemma sample_upstream_reply:
  "key \<noteq> [] \<Longrightarrow>
   upstream_reply (sample_runtime (Some key) reply) chicken_rice_request = Some (Inr reply)"
  by (simp add: upstream_reply_def serve_handler_def sample_try_block
      chicken_rice_request_def [THEN arg_cong, of req_method] split: sum.splits)
     (simp add: sample_runtime_def)


lemma sample_serve_handler:
  "key \<noteq> [] \<Longrightarrow>
   serve_handler (sample_runtime (Some key) reply) chicken_rice_request =
     (case fst (respond_upstream (sample_runtime (Some key) reply) reply) of
        Inr resp \<Rightarrow>
          (resp,
           [Log_generating (Some (JArray [JString ''chicken'', JString ''rice''])),
            Fetch (upstream_request (sample_runtime (Some key) reply) key ''chicken, rice'')]
             @ snd (respond_upstream (sample_runtime (Some key) reply) reply))
      | Inl e \<Rightarrow>
          (fst (catch_clause (sample_runtime (Some key) reply) e),
           [Log_generating (Some (JArray [JString ''chicken'', JString ''rice''])),
            Fetch (upstream_request (sample_runtime (Some key) reply) key ''chicken, rice'')]
             @ snd (respond_upstream (sample_runtime (Some key) reply) reply)
             @ snd (catch_clause (sample_runtime (Some key) reply) e)))"
  by (simp add: serve_handler_def sample_try_block
      chicken_rice_request_def [THEN arg_cong, of req_method] split: sum.splits)

lemma sample_gateway_failure:
  "\<not> response_ok (failure_reply code) \<Longrightarrow> code \<noteq> 429 \<Longrightarrow> code \<noteq> 402 \<Longrightarrow>
   fst (serve_handler (sample_runtime (Some ''sk-sample'') (failure_reply code)) chicken_rice_request)
     = \<lparr>status = 500, headers = json_headers,
        body = Some (sample_stringify (JObject [(''error'', JString (''AI gateway error: '' @ decimal code))]))\<rparr>"
  by (simp add: sample_serve_handler respond_upstream_def failure_reply_def)
     (simp add: catch_clause_def error_response_def sample_runtime_def)


subsection \<open>Upstream failures\<close>

lemma with_upstream_body_reply:
  assumes "upstream_reply rt req = Some (Inr r)"
  shows "upstream_reply (with_upstream_body rt b) req = Some (Inr (r\<lparr>up_body := b\<rparr>))"
proof -
  from upstream_reply_SomeD [OF assms] have m: "req_method req \<noteq> ''OPTIONS''" by simp
  obtain res evs where tb: "try_block (with_upstream_body rt b) req = (res, evs)"
    by (cases "try_block (with_upstream_body rt b) req")
  have ev: "[call. Fetch call \<leftarrow> snd (serve_handler (with_upstream_body rt b) req)]
              = [call. Fetch call \<leftarrow> evs]"
    using m tb by (cases res) (simp_all add: serve_handler_def catch_clause_def)
  have "(case [call. Fetch call \<leftarrow> snd (serve_handler rt req)] of [] \<Rightarrow> None
         | call # _ \<Rightarrow> Some (fetch rt call)) = Some (Inr r)"
    using assms by (simp add: upstream_reply_def)
  then have "(case [call. Fetch call \<leftarrow> evs] of [] \<Rightarrow> None
         | call # _ \<Rightarrow> Some (fetch (with_upstream_body rt b) call)) = Some (Inr (r\<lparr>up_body := b\<rparr>))"
    using tb m
    by (auto simp: serve_handler_def try_block_def Let_def respond_upstream_no_fetch
        with_upstream_body_def upstream_request_def catch_clause_def
        split: sum.splits option.splits if_splits)
  then show ?thesis
    using ev by (simp add: upstream_reply_def)
qed

lemma gateway_failure:
  assumes "upstream_reply rt req = Some (Inr r)"
    and "\<not> response_ok r" and "up_status r \<noteq> 429" and "up_status r \<noteq> 402"
  shows "fst (serve_handler rt req) =
           \<lparr>status = 500, headers = corsHeaders @ [(''Content-Type'', ''application/json'')],
            body = Some (JSON_stringify rt
                     (JObject [(''error'', JString (''AI gateway error: '' @ decimal (up_status r)))]))\<rparr>"
    and "Log_gateway_error (up_status r) (up_body r) \<in> set (snd (serve_handler rt req))"
proof -
  have ru: "respond_upstream rt r =
          (Inl (Error (''AI gateway error: '' @ decimal (up_status r))),
           [Log_gateway_error (up_status r) (up_body r)])"
    using assms(2-4) by (simp add: respond_upstream_def)
  with serve_handler_after_reply [OF assms(1)]
  show "fst (serve_handler rt req) =
           \<lparr>status = 500, headers = corsHeaders @ [(''Content-Type'', ''application/json'')],
            body = Some (JSON_stringify rt
                     (JObject [(''error'', JString (''AI gateway error: '' @ decimal (up_status r)))]))\<rparr>"
    by (auto simp: catch_clause_def error_response_def json_headers_def)
  from ru serve_handler_after_reply [OF assms(1)]
  show "Log_gateway_error (up_status r) (up_body r) \<in> set (snd (serve_handler rt req))"
    by (auto simp: catch_clause_def)
qed


text \<open>
  C1, as the code has it. When the upstream replies with a status outside 200..299 that is
  neither 429 nor 402, the caller gets status 500 with the JSON body
  \<^verbatim>\<open>{ error: "AI gateway error: <status>" }\<close>: the message carries the upstream status
  code. The upstream status and body are written to the console. The upstream body is
  not returned: with any other body text in the upstream reply the response is the same.
\<close>

theorem gateway_failure_answer:
  assumes "upstream_reply rt req = Some (Inr r)"
    and "\<not> response_ok r" and "up_status r \<noteq> 429" and "up_status r \<noteq> 402"
  shows "fst (serve_handler rt req) =
           \<lparr>status = 500, headers = corsHeaders @ [(''Content-Type'', ''application/json'')],
            body = Some (JSON_stringify rt
                     (JObject [(''error'', JString (''AI gateway error: '' @ decimal (up_status r)))]))\<rparr> \<and>
         Log_gateway_error (up_status r) (up_body r) \<in> set (snd (serve_handler rt req)) \<and>
         (\<forall>b. fst (serve_handler (with_upstream_body rt b) req) = fst (serve_handler rt req))"
proof -
  have same: "fst (serve_handler (with_upstream_body rt b) req) = fst (serve_handler rt req)" for b
  proof -
    have "fst (serve_handler (with_upstream_body rt b) req) =
           \<lparr>status = 500, headers = corsHeaders @ [(''Content-Type'', ''application/json'')],
            body = Some (JSON_stringify (with_upstream_body rt b)
                     (JObject [(''error'', JString (''AI gateway error: '' @
                        decimal (up_status (r\<lparr>up_body := b\<rparr>))))]))\<rparr>"
      using assms(2-4)
      by (intro gateway_failure(1) [OF with_upstream_body_reply [OF assms(1)]])
         (simp_all add: response_ok_def)
    then show ?thesis
      using gateway_failure(1) [OF assms] by (simp add: with_upstream_body_def)
  qed
  with gateway_failure [OF assms] show ?thesis by simp
qed


theorem gateway_failure_answer_witness:
  "upstream_reply (sample_runtime (Some ''sk-sample'') (failure_reply 500)) chicken_rice_request
     = Some (Inr (failure_reply 500)) \<and>
   \<not> response_ok (failure_reply 500) \<and>
   up_status (failure_reply 500) \<noteq> 429 \<and> up_status (failure_reply 500) \<noteq> 402 \<and>
   fst (serve_handler (sample_runtime (Some ''sk-sample'') (failure_reply 500)) chicken_rice_request) =
     \<lparr>status = 500,
      headers = [(''Access-Control-Allow-Origin'', ''*''),
                 (''Access-Control-Allow-Headers'', ''authorization, x-client-info, apikey, content-type''),
                 (''Content-Type'', ''application/json'')],
      body = Some ''{\"error\":\"AI gateway error: 500\"}''\<rparr> \<and>
   Log_gateway_error 500 ''upstream detail''
     \<in> set (snd (serve_handler (sample_runtime (Some ''sk-sample'') (failure_reply 500))
                   chicken_rice_request)) \<and>
   fst (serve_handler
          (with_upstream_body (sample_runtime (Some ''sk-sample'') (failure_reply 500)) ''other text'')
          chicken_rice_request)
     = fst (serve_handler (sample_runtime (Some ''sk-sample'') (failure_reply 500))
              chicken_rice_request)"
proof -
  have h1: "upstream_reply (sample_runtime (Some ''sk-sample'') (failure_reply 500)) chicken_rice_request
              = Some (Inr (failure_reply 500))"
    by (simp add: sample_upstream_reply)
  have h2: "\<not> response_ok (failure_reply 500)"
    by (simp add: response_ok_def failure_reply_def)
  have h3: "up_status (failure_reply 500) \<noteq> 429" "up_status (failure_reply 500) \<noteq> 402"
    by (simp_all add: failure_reply_def)
  have st: "up_status (failure_reply 500) = 500" "up_body (failure_reply 500) = ''upstream detail''"
    by (simp_all add: failure_reply_def)
  have rendered: "JSON_stringify (sample_runtime (Some ''sk-sample'') (failure_reply 500))
               (JObject [(''error'', JString (''AI gateway error: '' @ decimal 500))])
             = ''{\"error\":\"AI gateway error: 500\"}''"
    by (simp add: sample_runtime_def quote_def decimal.simps)
  from gateway_failure_answer [OF h1 h2 h3] h1 h2 h3 rendered show ?thesis
    by (simp add: st corsHeaders_def)
qed

text \<open>
  C1 as it is stated does not hold: the upstream status reaches the caller. With an
  upstream reply of status 503 the response body is
  \<^verbatim>\<open>{"error":"AI gateway error: 503"}\<close>, and it differs from the response to an upstream
  status 500.
\<close>

theorem gateway_status_disclosed:
  "upstream_reply (sample_runtime (Some ''sk-sample'') (failure_reply 503)) chicken_rice_request
     = Some (Inr (failure_reply 503)) \<and>
   \<not> response_ok (failure_reply 503) \<and>
   up_status (failure_reply 503) = 503 \<and>
   body (fst (serve_handler (sample_runtime (Some ''sk-sample'') (failure_reply 503))
                chicken_rice_request))
     = Some ''{\"error\":\"AI gateway error: 503\"}'' \<and>
   fst (serve_handler (sample_runtime (Some ''sk-sample'') (failure_reply 503)) chicken_rice_request)
     \<noteq> fst (serve_handler (sample_runtime (Some ''sk-sample'') (failure_reply 500)) chicken_rice_request)"
proof -
  have a: "\<not> response_ok (failure_reply 503)" "\<not> response_ok (failure_reply 500)"
    "up_status (failure_reply 503) = 503"
    by (simp_all add: response_ok_def failure_reply_def)
  show ?thesis
    using a by (simp add: sample_upstream_reply sample_gateway_failure quote_def decimal.simps)
qed


text \<open>
  C4. Whenever the upstream call returns status 429, the response has status 429, the
  CORS headers with the JSON content type, and the body
  \<^verbatim>\<open>JSON.stringify({ error: 'Rate limit exceeded. Please try again later.' })\<close>.
\<close>

theorem rate_limited:
  assumes "upstream_reply rt req = Some (Inr r)" and "up_status r = 429"
  shows "fst (serve_handler rt req) =
           \<lparr>status = 429, headers = corsHeaders @ [(''Content-Type'', ''application/json'')],
            body = Some (JSON_stringify rt
                     (JObject [(''error'', JString ''Rate limit exceeded. Please try again later.'')]))\<rparr>"
proof -
  have "fst (respond_upstream rt r) =
          Inr (error_response rt 429 ''Rate limit exceeded. Please try again later.'')"
    using assms(2) by (simp add: respond_upstream_def response_ok_def)
  with serve_handler_after_reply [OF assms(1)] show ?thesis
    by (auto simp: error_response_def json_headers_def)
qed

theorem rate_limited_witness:
  "upstream_reply (sample_runtime (Some ''sk-sample'') (failure_reply 429)) chicken_rice_request
     = Some (Inr (failure_reply 429)) \<and>
   up_status (failure_reply 429) = 429 \<and>
   fst (serve_handler (sample_runtime (Some ''sk-sample'') (failure_reply 429)) chicken_rice_request) =
     \<lparr>status = 429,
      headers = [(''Access-Control-Allow-Origin'', ''*''),
                 (''Access-Control-Allow-Headers'', ''authorization, x-client-info, apikey, content-type''),
                 (''Content-Type'', ''application/json'')],
      body = Some ''{\"error\":\"Rate limit exceeded. Please try again later.\"}''\<rparr>"
proof -
  have h1: "upstream_reply (sample_runtime (Some ''sk-sample'') (failure_reply 429)) chicken_rice_request
              = Some (Inr (failure_reply 429))"
    by (simp add: sample_upstream_reply)
  have h2: "up_status (failure_reply 429) = 429"
    by (simp add: failure_reply_def)
  from rate_limited [OF h1 h2] h1 h2 show ?thesis
    by (simp add: sample_runtime_def corsHeaders_def quote_def)
qed


text \<open>
  C5. Whenever the upstream call returns status 402, the response has status 402, the
  CORS headers with the JSON content type, and the body
  \<^verbatim>\<open>JSON.stringify({ error: 'Payment required. Please add credits to your workspace.' })\<close>.
\<close>

theorem payment_required:
  assumes "upstream_reply rt req = Some (Inr r)" and "up_status r = 402"
  shows "fst (serve_handler rt req) =
           \<lparr>status = 402, headers = corsHeaders @ [(''Content-Type'', ''application/json'')],
            body = Some (JSON_stringify rt
                     (JObject [(''error'',
                        JString ''Payment required. Please add credits to your workspace.'')]))\<rparr>"
proof -
  have "fst (respond_upstream rt r) =
          Inr (error_response rt 402 ''Payment required. Please add credits to your workspace.'')"
    using assms(2) by (simp add: respond_upstream_def response_ok_def)
  with serve_handler_after_reply [OF assms(1)] show ?thesis
    by (auto simp: error_response_def json_headers_def)
qed

theorem payment_required_witness:
  "upstream_reply (sample_runtime (Some ''sk-sample'') (failure_reply 402)) chicken_rice_request
     = Some (Inr (failure_reply 402)) \<and>
   up_status (failure_reply 402) = 402 \<and>
   fst (serve_handler (sample_runtime (Some ''sk-sample'') (failure_reply 402)) chicken_rice_request) =
     \<lparr>status = 402,
      headers = [(''Access-Control-Allow-Origin'', ''*''),
                 (''Access-Control-Allow-Headers'', ''authorization, x-client-info, apikey, content-type''),
                 (''Content-Type'', ''application/json'')],
      body = Some ''{\"error\":\"Payment required. Please add credits to your workspace.\"}''\<rparr>"
proof -
  have h1: "upstream_reply (sample_runtime (Some ''sk-sample'') (failure_reply 402)) chicken_rice_request
              = Some (Inr (failure_reply 402))"
    by (simp add: sample_upstream_reply)
  have h2: "up_status (failure_reply 402) = 402"
    by (simp add: failure_reply_def)
  from payment_required [OF h1 h2] h1 h2 show ?thesis
    by (simp add: sample_runtime_def corsHeaders_def quote_def)
qed


subsection \<open>Upstream successes\<close>

lemma sample_recipe_body:
  "JSON_parse (sample_runtime k recipe_reply) (up_body recipe_reply)
     = Inr (sample_completion (sample_stringify sample_recipe))"
  by (simp add: sample_runtime_def recipe_reply_def) code_simp

lemma sample_recipe_message:
  "message_content (sample_completion (sample_stringify sample_recipe))
     = Inr (Some (JString (sample_stringify sample_recipe)))"
  by (simp add: message_content_def sample_completion_def)

lemma sample_recipe_content:
  "JSON_parse_value (sample_runtime k recipe_reply) (Some (JString (sample_stringify sample_recipe)))
     = Inr sample_recipe"
  by (simp add: sample_runtime_def JSON_parse_value_def) code_simp

lemma sample_prose_body:
  "JSON_parse (sample_runtime k prose_reply) (up_body prose_reply)
     = Inr (sample_completion ''Sorry, no recipe today'')"
  by (simp add: sample_runtime_def prose_reply_def) code_simp

lemma sample_prose_message:
  "message_content (sample_completion ''Sorry, no recipe today'' :: nat json)
     = Inr (Some (JString ''Sorry, no recipe today''))"
  by (simp add: message_content_def sample_completion_def)

lemma sample_prose_content:
  "JSON_parse_value (sample_runtime k prose_reply) (Some (JString ''Sorry, no recipe today''))
     = Inl (Error ''Unexpected token'')"
  by (simp add: sample_runtime_def JSON_parse_value_def) code_simp

text \<open>
  C2. When the upstream call returns a success status and \<^verbatim>\<open>JSON.parse\<close> of the message
  content \<^verbatim>\<open>data.choices[0].message.content\<close> throws, the response has status 500 (so
  never 200) and carries the message of what was thrown; it comes from the
  \<^verbatim>\<open>catch\<close> clause, whose console line is the last effect.
\<close>

theorem unparseable_content:
  assumes "upstream_reply rt req = Some (Inr r)" and "response_ok r"
    and "JSON_parse rt (up_body r) = Inr data"
    and "message_content data = Inr content"
    and "JSON_parse_value rt content = Inl e"
  shows "fst (serve_handler rt req) =
           \<lparr>status = 500, headers = corsHeaders @ [(''Content-Type'', ''application/json'')],
            body = Some (JSON_stringify rt
                     (JObject [(''error'',
                        JString (case e of Error msg \<Rightarrow> msg
                                 | Thrown_other \<Rightarrow> ''An error occurred''))]))\<rparr> \<and>
         status (fst (serve_handler rt req)) \<noteq> 200 \<and>
         last (snd (serve_handler rt req)) = Log_handler_error e"
proof -
  have "respond_upstream rt r = (Inl e, [Log_response_received])"
    using assms(2-5) by (simp add: respond_upstream_def)
  with serve_handler_after_reply [OF assms(1)] show ?thesis
    by (auto simp: catch_clause_def error_response_def json_headers_def)
qed

theorem unparseable_content_witness:
  "upstream_reply (sample_runtime (Some ''sk-sample'') prose_reply) chicken_rice_request
     = Some (Inr prose_reply) \<and>
   response_ok prose_reply \<and>
   JSON_parse (sample_runtime (Some ''sk-sample'') prose_reply) (up_body prose_reply)
     = Inr (sample_completion ''Sorry, no recipe today'') \<and>
   message_content (sample_completion ''Sorry, no recipe today'' :: nat json)
     = Inr (Some (JString ''Sorry, no recipe today'')) \<and>
   JSON_parse_value (sample_runtime (Some ''sk-sample'') prose_reply)
       (Some (JString ''Sorry, no recipe today''))
     = Inl (Error ''Unexpected token'') \<and>
   fst (serve_handler (sample_runtime (Some ''sk-sample'') prose_reply) chicken_rice_request) =
     \<lparr>status = 500,
      headers = [(''Access-Control-Allow-Origin'', ''*''),
                 (''Access-Control-Allow-Headers'', ''authorization, x-client-info, apikey, content-type''),
                 (''Content-Type'', ''application/json'')],
      body = Some ''{\"error\":\"Unexpected token\"}''\<rparr> \<and>
   last (snd (serve_handler (sample_runtime (Some ''sk-sample'') prose_reply) chicken_rice_request))
     = Log_handler_error (Error ''Unexpected token'')"
proof -
  have h1: "upstream_reply (sample_runtime (Some ''sk-sample'') prose_reply) chicken_rice_request
              = Some (Inr prose_reply)"
    by (simp add: sample_upstream_reply)
  have h2: "response_ok prose_reply"
    by (simp add: response_ok_def prose_reply_def)
  note h3 = sample_prose_body [of "Some ''sk-sample''"]
  note h4 = sample_prose_message
  note h5 = sample_prose_content [of "Some ''sk-sample''"]
  from unparseable_content [OF h1 h2 h3 h4 h5] h1 h2 h3 h4 h5 show ?thesis
    by (simp add: sample_runtime_def corsHeaders_def quote_def)
qed


text \<open>
  C3. When the upstream call returns a success status and the message content parses,
  the response has status 200 and the body \<^verbatim>\<open>JSON.stringify({ recipe: recipeData })\<close>,
  where \<open>recipeData\<close> is whatever value the parse produced: nothing about its shape
  is checked.
\<close>

theorem recipe_envelope:
  assumes "upstream_reply rt req = Some (Inr r)" and "response_ok r"
    and "JSON_parse rt (up_body r) = Inr data"
    and "message_content data = Inr content"
    and "JSON_parse_value rt content = Inr recipeData"
  shows "fst (serve_handler rt req) =
           \<lparr>status = 200, headers = corsHeaders @ [(''Content-Type'', ''application/json'')],
            body = Some (JSON_stringify rt (JObject [(''recipe'', recipeData)]))\<rparr>"
proof -
  have "fst (respond_upstream rt r) =
          Inr \<lparr>status = 200, headers = json_headers,
               body = Some (JSON_stringify rt (JObject [(''recipe'', recipeData)]))\<rparr>"
    using assms(2-5) by (simp add: respond_upstream_def)
  with serve_handler_after_reply [OF assms(1)] show ?thesis
    by (auto simp: json_headers_def)
qed

theorem recipe_envelope_witness:
  "upstream_reply (sample_runtime (Some ''sk-sample'') recipe_reply) chicken_rice_request
     = Some (Inr recipe_reply) \<and>
   response_ok recipe_reply \<and>
   JSON_parse (sample_runtime (Some ''sk-sample'') recipe_reply) (up_body recipe_reply)
     = Inr (sample_completion (sample_stringify sample_recipe)) \<and>
   message_content (sample_completion (sample_stringify sample_recipe))
     = Inr (Some (JString (sample_stringify sample_recipe))) \<and>
   JSON_parse_value (sample_runtime (Some ''sk-sample'') recipe_reply)
       (Some (JString (sample_stringify sample_recipe)))
     = Inr (JObject [(''name'', JString ''Chicken rice''), (''cookingTime'', JNumber 30)]) \<and>
   fst (serve_handler (sample_runtime (Some ''sk-sample'') recipe_reply) chicken_rice_request) =
     \<lparr>status = 200,
      headers = [(''Access-Control-Allow-Origin'', ''*''),
                 (''Access-Control-Allow-Headers'', ''authorization, x-client-info, apikey, content-type''),
                 (''Content-Type'', ''application/json'')],
      body = Some ''{\"recipe\":{\"name\":\"Chicken rice\",\"cookingTime\":30}}''\<rparr>"
proof -
  have h1: "upstream_reply (sample_runtime (Some ''sk-sample'') recipe_reply) chicken_rice_request
              = Some (Inr recipe_reply)"
    by (simp add: sample_upstream_reply)
  have h2: "response_ok recipe_reply"
    by (simp add: response_ok_def recipe_reply_def)
  note h3 = sample_recipe_body [of "Some ''sk-sample''"]
  note h4 = sample_recipe_message
  note h5 = sample_recipe_content [of "Some ''sk-sample''"]
  have rendered: "JSON_stringify (sample_runtime (Some ''sk-sample'') recipe_reply)
                    (JObject [(''recipe'', sample_recipe)])
                  = ''{\"recipe\":{\"name\":\"Chicken rice\",\"cookingTime\":30}}''"
    by (simp add: sample_runtime_def) code_simp
  from recipe_envelope [OF h1 h2 h3 h4 h5] h1 h2 h3 h4 h5 rendered show ?thesis
    by (simp add: corsHeaders_def sample_recipe_def)
qed

subsection \<open>The credential\<close>

lemma try_block_without_credential:
  assumes "env_get rt ''LOVABLE_API_KEY'' = None \<or> env_get rt ''LOVABLE_API_KEY'' = Some []"
  shows "\<exists>e. fst (try_block rt req) = Inl e"
    and "[call. Fetch call \<leftarrow> snd (try_block rt req)] = []"
  using assms by (auto simp: try_block_def split: sum.splits)

lemma try_block_not_configured:
  assumes "env_get rt ''LOVABLE_API_KEY'' = None \<or> env_get rt ''LOVABLE_API_KEY'' = Some []"
    and "JSON_parse rt (req_body req) = Inr parsed"
    and "destructure_ingredients parsed = Inr ing"
  shows "try_block rt req =
           (Inl (Error ''LOVABLE_API_KEY is not configured''), [Log_generating ing])"
  using assms by (auto simp: try_block_def)

lemma sample_destructure:
  "destructure_ingredients (JObject [(''ingredients'', v)]) = Inr (Some v)"
  by (simp add: destructure_ingredients_def)

text \<open>
  C6. For a request other than the pre-flight (which never consults the credential),
  when \<^verbatim>\<open>LOVABLE_API_KEY\<close> is unset or empty, the response has status 500 and a JSON
  body \<^verbatim>\<open>{ error: msg }\<close>, no upstream call is made, and once the request body has been
  parsed the message is \<^verbatim>\<open>LOVABLE_API_KEY is not configured\<close>. The handler returns
  this response instead of failing, so the process answers the invocations that follow
  as it would have without the failed one.
\<close>

theorem missing_credential:
  assumes "req_method req \<noteq> ''OPTIONS''"
    and "env_get rt ''LOVABLE_API_KEY'' = None \<or> env_get rt ''LOVABLE_API_KEY'' = Some []"
  shows "(\<exists>msg. fst (serve_handler rt req) =
            \<lparr>status = 500, headers = corsHeaders @ [(''Content-Type'', ''application/json'')],
             body = Some (JSON_stringify rt (JObject [(''error'', JString msg)]))\<rparr>) \<and>
         upstream_reply rt req = None \<and>
         (\<forall>parsed ing.
            JSON_parse rt (req_body req) = Inr parsed \<and> destructure_ingredients parsed = Inr ing \<longrightarrow>
            serve_handler rt req =
              (\<lparr>status = 500, headers = corsHeaders @ [(''Content-Type'', ''application/json'')],
                body = Some (JSON_stringify rt
                         (JObject [(''error'', JString ''LOVABLE_API_KEY is not configured'')]))\<rparr>,
               [Log_generating ing,
                Log_handler_error (Error ''LOVABLE_API_KEY is not configured'')])) \<and>
         (\<forall>later. serve ((rt, req) # later) = serve_handler rt req # serve later)"
proof (intro conjI allI impI)
  obtain e where e: "fst (try_block rt req) = Inl e"
    using try_block_without_credential(1) [OF assms(2)] by auto
  then have sh: "serve_handler rt req =
      (fst (catch_clause rt e), snd (try_block rt req) @ snd (catch_clause rt e))"
    using assms(1) by (cases "try_block rt req") (simp add: serve_handler_def)
  show "\<exists>msg. fst (serve_handler rt req) =
            \<lparr>status = 500, headers = corsHeaders @ [(''Content-Type'', ''application/json'')],
             body = Some (JSON_stringify rt (JObject [(''error'', JString msg)]))\<rparr>"
    by (rule exI [of _ "case e of Error msg \<Rightarrow> msg | Thrown_other \<Rightarrow> ''An error occurred''"])
       (simp add: sh catch_clause_def error_response_def json_headers_def)
  show "upstream_reply rt req = None"
    by (simp add: upstream_reply_def sh try_block_without_credential(2) [OF assms(2)]
        catch_clause_def)
next
  fix parsed ing
  assume "JSON_parse rt (req_body req) = Inr parsed \<and> destructure_ingredients parsed = Inr ing"
  then have "try_block rt req =
           (Inl (Error ''LOVABLE_API_KEY is not configured''), [Log_generating ing])"
    using try_block_not_configured [OF assms(2)] by simp
  then show "serve_handler rt req =
              (\<lparr>status = 500, headers = corsHeaders @ [(''Content-Type'', ''application/json'')],
                body = Some (JSON_stringify rt
                         (JObject [(''error'', JString ''LOVABLE_API_KEY is not configured'')]))\<rparr>,
               [Log_generating ing,
                Log_handler_error (Error ''LOVABLE_API_KEY is not configured'')])"
    using assms(1)
    by (simp add: serve_handler_def catch_clause_def error_response_def json_headers_def)
next
  fix later
  show "serve ((rt, req) # later) = serve_handler rt req # serve later"
    by (simp add: serve_def)
qed

theorem missing_credential_witness:
  "req_method chicken_rice_request \<noteq> ''OPTIONS'' \<and>
   env_get (sample_runtime None recipe_reply) ''LOVABLE_API_KEY'' = None \<and>
   upstream_reply (sample_runtime None recipe_reply) chicken_rice_request = None \<and>
   serve_handler (sample_runtime None recipe_reply) chicken_rice_request =
     (\<lparr>status = 500,
       headers = [(''Access-Control-Allow-Origin'', ''*''),
                  (''Access-Control-Allow-Headers'', ''authorization, x-client-info, apikey, content-type''),
                  (''Content-Type'', ''application/json'')],
       body = Some ''{\"error\":\"LOVABLE_API_KEY is not configured\"}''\<rparr>,
      [Log_generating (Some (JArray [JString ''chicken'', JString ''rice''])),
       Log_handler_error (Error ''LOVABLE_API_KEY is not configured'')]) \<and>
   map (\<lambda>answer. status (fst answer))
     (serve [(sample_runtime None recipe_reply, chicken_rice_request),
             (sample_runtime (Some ''sk-sample'') recipe_reply, chicken_rice_request)])
     = [500, 200]"
proof -
  have h1: "req_method chicken_rice_request \<noteq> ''OPTIONS''"
    by (simp add: chicken_rice_request_def)
  have h2: "env_get (sample_runtime None recipe_reply) ''LOVABLE_API_KEY'' = None"
    by (simp add: sample_runtime_def)
  have p: "JSON_parse (sample_runtime None recipe_reply) (req_body chicken_rice_request)
             = Inr (JObject [(''ingredients'', JArray [JString ''chicken'', JString ''rice''])])"
    using sample_parse_chicken_rice by (simp add: sample_runtime_def)
  have rendered: "JSON_stringify (sample_runtime None recipe_reply)
                    (JObject [(''error'', JString ''LOVABLE_API_KEY is not configured'')])
                  = ''{\"error\":\"LOVABLE_API_KEY is not configured\"}''"
    by (simp add: sample_runtime_def quote_def)
  have ok: "status (fst (serve_handler (sample_runtime (Some ''sk-sample'') recipe_reply)
                            chicken_rice_request)) = 200"
    by (simp add: sample_serve_handler respond_upstream_def sample_recipe_body
        sample_recipe_message sample_recipe_content)
       (simp add: response_ok_def recipe_reply_def)
  from missing_credential [OF h1 disjI1 [OF h2]] h1 h2 p rendered ok
  show ?thesis
    by (simp add: corsHeaders_def serve_def sample_destructure)
qed


subsection \<open>Cross-origin headers\<close>

lemma respond_upstream_headers:
  "fst (respond_upstream rt r) = Inr resp \<Longrightarrow>
     headers resp = json_headers \<and> (status resp = 200 \<or> status resp = 429 \<or> status resp = 402)"
  by (auto simp: respond_upstream_def error_response_def Let_def split: if_splits sum.splits)

lemma try_block_headers:
  "fst (try_block rt req) = Inr resp \<Longrightarrow>
     headers resp = json_headers \<and> (status resp = 200 \<or> status resp = 429 \<or> status resp = 402)"
  by (auto simp: try_block_def Let_def dest: respond_upstream_headers
      split: if_splits sum.splits option.splits)

text \<open>
  C7. Every response of the handler carries the two CORS headers, alone or followed by
  the JSON content type: any origin is allowed, and the allowed request headers are
  \<^verbatim>\<open>authorization, x-client-info, apikey, content-type\<close>. Its status is 200, 429, 402
  or 500. An \<^verbatim>\<open>OPTIONS\<close> request is answered at once with status 200, no body and the
  CORS headers, without any effect.
\<close>

theorem cors_on_every_response:
  "(headers (fst (serve_handler rt req)) = corsHeaders \<or>
    headers (fst (serve_handler rt req)) = corsHeaders @ [(''Content-Type'', ''application/json'')]) \<and>
   map_of (headers (fst (serve_handler rt req))) ''Access-Control-Allow-Origin'' = Some ''*'' \<and>
   map_of (headers (fst (serve_handler rt req))) ''Access-Control-Allow-Headers''
     = Some ''authorization, x-client-info, apikey, content-type'' \<and>
   (status (fst (serve_handler rt req)) = 200 \<or> status (fst (serve_handler rt req)) = 429 \<or>
    status (fst (serve_handler rt req)) = 402 \<or> status (fst (serve_handler rt req)) = 500) \<and>
   (req_method req = ''OPTIONS'' \<longrightarrow>
      serve_handler rt req = (\<lparr>status = 200, headers = corsHeaders, body = None\<rparr>, []))"
proof (cases "req_method req = ''OPTIONS''")
  case True
  then show ?thesis
    by (simp add: serve_handler_def corsHeaders_def)
next
  case False
  obtain res evs where tb: "try_block rt req = (res, evs)"
    by (cases "try_block rt req")
  show ?thesis
  proof (cases res)
    case (Inl e)
    with False tb show ?thesis
      by (simp add: serve_handler_def catch_clause_def error_response_def json_headers_def
          corsHeaders_def)
  next
    case (Inr resp)
    with tb have "fst (try_block rt req) = Inr resp" by simp
    from try_block_headers [OF this] False tb Inr show ?thesis
      by (auto simp: serve_handler_def json_headers_def corsHeaders_def)
  qed
qed

theorem cors_on_every_response_witness:
  "req_method preflight_request = ''OPTIONS'' \<and>
   serve_handler (sample_runtime (Some ''sk-sample'') recipe_reply) preflight_request =
     (\<lparr>status = 200,
       headers = [(''Access-Control-Allow-Origin'', ''*''),
                  (''Access-Control-Allow-Headers'', ''authorization, x-client-info, apikey, content-type'')],
       body = None\<rparr>, [])"
proof -
  have h: "req_method preflight_request = ''OPTIONS''"
    by (simp add: preflight_request_def)
  from cors_on_every_response [of "sample_runtime (Some ''sk-sample'') recipe_reply" preflight_request] h
  show ?thesis
    by (simp add: corsHeaders_def)
qed


subsection \<open>The ingredient list\<close>

lemma Array_join_strings:
  "Array_join nts (map JString xs) sep = join_with sep xs"
  by (simp add: Array_join_def comp_def)

lemma try_block_with_array:
  assumes "JSON_parse rt (req_body req) = Inr parsed"
    and "destructure_ingredients parsed = Inr (Some (JArray elems))"
    and "env_get rt ''LOVABLE_API_KEY'' = Some key" and "key \<noteq> []"
  shows "try_block rt req =
           (case fetch rt (upstream_request rt key (Array_join (number_to_string rt) elems '', '')) of
              Inl e \<Rightarrow>
                (Inl e,
                 [Log_generating (Some (JArray elems)),
                  Fetch (upstream_request rt key (Array_join (number_to_string rt) elems '', ''))])
            | Inr r \<Rightarrow>
                (fst (respond_upstream rt r),
                 [Log_generating (Some (JArray elems)),
                  Fetch (upstream_request rt key (Array_join (number_to_string rt) elems '', ''))]
                   @ snd (respond_upstream rt r)))"
  using assms by (simp add: try_block_def Let_def split: sum.splits)

lemma serve_handler_with_array:
  assumes "req_method req \<noteq> ''OPTIONS''"
    and "JSON_parse rt (req_body req) = Inr parsed"
    and "destructure_ingredients parsed = Inr (Some (JArray elems))"
    and "env_get rt ''LOVABLE_API_KEY'' = Some key" and "key \<noteq> []"
  shows "upstream_reply rt req =
           Some (fetch rt (upstream_request rt key (Array_join (number_to_string rt) elems '', '')))"
    and "\<exists>rest. snd (serve_handler rt req) =
           Log_generating (Some (JArray elems))
             # Fetch (upstream_request rt key (Array_join (number_to_string rt) elems '', ''))
             # rest"
    and "fst (serve_handler rt req) =
           (case fetch rt (upstream_request rt key (Array_join (number_to_string rt) elems '', '')) of
              Inl e \<Rightarrow> fst (catch_clause rt e)
            | Inr r \<Rightarrow>
                (case fst (respond_upstream rt r) of
                   Inl e \<Rightarrow> fst (catch_clause rt e)
                 | Inr resp \<Rightarrow> resp))"
  using assms(1)
  by (simp_all add: upstream_reply_def serve_handler_def try_block_with_array [OF assms(2-5)]
      split: sum.splits)


lemma sample_parse_request:
  "JSON_parse (sample_runtime k reply) (req_body chicken_rice_request)
     = Inr (JObject [(''ingredients'', JArray (map JString [''chicken'', ''rice'']))])"
  using sample_parse_chicken_rice by (simp add: sample_runtime_def)

lemma sample_parse_no_ingredients:
  "JSON_parse (sample_runtime k reply) (req_body no_ingredients_request)
     = Inr (JObject [(''ingredients'', JArray [])])"
  by (simp add: sample_runtime_def no_ingredients_request_def) code_simp

text \<open>
  C8. For a request whose \<^verbatim>\<open>ingredients\<close> is an array of strings \<open>xs\<close> (the request is
  not the pre-flight and the credential is configured, so that a prompt is sent at all),
  the handler logs the list and calls the upstream with a body whose user message is
  \<^verbatim>\<open>Create a recipe using these ingredients: \<close> followed by the elements of \<open>xs\<close> joined
  by a comma and a space. For \<^verbatim>\<open>["chicken", "rice"]\<close> that prompt contains
  \<^verbatim>\<open>chicken, rice\<close>.
\<close>

theorem user_prompt_lists_ingredients:
  assumes "req_method req \<noteq> ''OPTIONS''"
    and "JSON_parse rt (req_body req) = Inr parsed"
    and "destructure_ingredients parsed = Inr (Some (JArray (map JString xs)))"
    and "env_get rt ''LOVABLE_API_KEY'' = Some key" and "key \<noteq> []"
  shows "(\<exists>rest. snd (serve_handler rt req) =
            Log_generating (Some (JArray (map JString xs)))
              # Fetch (upstream_request rt key (join_with '', '' xs)) # rest) \<and>
         fetch_body (upstream_request rt key (join_with '', '' xs)) =
           JSON_stringify rt
             (JObject
                [(''model'', JString ''google/gemini-2.5-flash''),
                 (''messages'',
                    JArray
                      [JObject [(''role'', JString ''system''), (''content'', JString systemPrompt)],
                       JObject [(''role'', JString ''user''),
                                (''content'',
                                   JString (''Create a recipe using these ingredients: ''
                                            @ join_with '', '' xs))]]),
                 (''response_format'', JObject [(''type'', JString ''json_object'')])]) \<and>
         (xs = [''chicken'', ''rice''] \<longrightarrow>
            sublist ''chicken, rice''
              (''Create a recipe using these ingredients: '' @ join_with '', '' xs))"
proof (intro conjI impI)
  show "\<exists>rest. snd (serve_handler rt req) =
            Log_generating (Some (JArray (map JString xs)))
              # Fetch (upstream_request rt key (join_with '', '' xs)) # rest"
    using serve_handler_with_array(2) [OF assms] by (simp add: Array_join_strings)
  show "fetch_body (upstream_request rt key (join_with '', '' xs)) =
           JSON_stringify rt
             (JObject
                [(''model'', JString ''google/gemini-2.5-flash''),
                 (''messages'',
                    JArray
                      [JObject [(''role'', JString ''system''), (''content'', JString systemPrompt)],
                       JObject [(''role'', JString ''user''),
                                (''content'',
                                   JString (''Create a recipe using these ingredients: ''
                                            @ join_with '', '' xs))]]),
                 (''response_format'', JObject [(''type'', JString ''json_object'')])])"
    by (simp add: upstream_request_def request_payload_def user_prompt_def)
next
  assume "xs = [''chicken'', ''rice'']"
  then have "join_with '', '' xs = ''chicken, rice''" by simp
  then show "sublist ''chicken, rice''
              (''Create a recipe using these ingredients: '' @ join_with '', '' xs)"
    using sublist_appendI [of "''chicken, rice''" "''Create a recipe using these ingredients: ''" "[]"]
    by simp
qed

theorem user_prompt_lists_ingredients_witness:
  "req_method chicken_rice_request \<noteq> ''OPTIONS'' \<and>
   JSON_parse (sample_runtime (Some ''sk-sample'') recipe_reply) (req_body chicken_rice_request)
     = Inr (JObject [(''ingredients'', JArray (map JString [''chicken'', ''rice'']))]) \<and>
   destructure_ingredients (JObject [(''ingredients'', JArray (map JString [''chicken'', ''rice'']))])
     = Inr (Some (JArray (map JString [''chicken'', ''rice'']) :: nat json)) \<and>
   env_get (sample_runtime (Some ''sk-sample'') recipe_reply) ''LOVABLE_API_KEY'' = Some ''sk-sample'' \<and>
   (\<exists>rest. snd (serve_handler (sample_runtime (Some ''sk-sample'') recipe_reply) chicken_rice_request) =
      Log_generating (Some (JArray [JString ''chicken'', JString ''rice'']))
        # Fetch (upstream_request (sample_runtime (Some ''sk-sample'') recipe_reply) ''sk-sample''
                   ''chicken, rice'') # rest) \<and>
   sublist ''chicken, rice'' ''Create a recipe using these ingredients: chicken, rice''"
proof -
  have h1: "req_method chicken_rice_request \<noteq> ''OPTIONS''"
    by (simp add: chicken_rice_request_def)
  note h2 = sample_parse_request [of "Some ''sk-sample''" recipe_reply]
  have h3: "destructure_ingredients (JObject [(''ingredients'', JArray (map JString [''chicken'', ''rice'']))])
     = Inr (Some (JArray (map JString [''chicken'', ''rice'']) :: nat json))"
    by (rule sample_destructure)
  have h4: "env_get (sample_runtime (Some ''sk-sample'') recipe_reply) ''LOVABLE_API_KEY''
              = Some ''sk-sample''"
    by (simp add: sample_runtime_def)
  have h5: "''sk-sample'' \<noteq> []" by simp
  from user_prompt_lists_ingredients [OF h1 h2 h3 h4 h5] h1 h2 h3 h4 show ?thesis
    by simp
qed

text \<open>
  C9. The handler does not validate the ingredient list. For a request whose body
  parses to an object with an empty \<^verbatim>\<open>ingredients\<close> array (the request is not the
  pre-flight and the credential is configured, as the endpoint's contract requires), the
  upstream call is made, with the empty list joined into the user prompt as it is, and
  the response is the one the upstream outcome dictates: no response rejects the input.
\<close>

theorem empty_ingredients_reach_upstream:
  assumes "req_method req \<noteq> ''OPTIONS''"
    and "JSON_parse rt (req_body req) = Inr parsed"
    and "destructure_ingredients parsed = Inr (Some (JArray []))"
    and "env_get rt ''LOVABLE_API_KEY'' = Some key" and "key \<noteq> []"
  shows "upstream_reply rt req = Some (fetch rt (upstream_request rt key [])) \<and>
         (\<exists>rest. snd (serve_handler rt req) =
            Log_generating (Some (JArray [])) # Fetch (upstream_request rt key []) # rest) \<and>
         fetch_body (upstream_request rt key []) =
           JSON_stringify rt
             (JObject
                [(''model'', JString ''google/gemini-2.5-flash''),
                 (''messages'',
                    JArray
                      [JObject [(''role'', JString ''system''), (''content'', JString systemPrompt)],
                       JObject [(''role'', JString ''user''),
                                (''content'', JString ''Create a recipe using these ingredients: '')]]),
                 (''response_format'', JObject [(''type'', JString ''json_object'')])]) \<and>
         fst (serve_handler rt req) =
           (case fetch rt (upstream_request rt key []) of
              Inl e \<Rightarrow> fst (catch_clause rt e)
            | Inr r \<Rightarrow>
                (case fst (respond_upstream rt r) of
                   Inl e \<Rightarrow> fst (catch_clause rt e)
                 | Inr resp \<Rightarrow> resp))"
proof -
  have j: "Array_join (number_to_string rt) [] '', '' = []"
    by (simp add: Array_join_def)
  have b: "fetch_body (upstream_request rt key []) =
           JSON_stringify rt
             (JObject
                [(''model'', JString ''google/gemini-2.5-flash''),
                 (''messages'',
                    JArray
                      [JObject [(''role'', JString ''system''), (''content'', JString systemPrompt)],
                       JObject [(''role'', JString ''user''),
                                (''content'', JString ''Create a recipe using these ingredients: '')]]),
                 (''response_format'', JObject [(''type'', JString ''json_object'')])])"
    by (simp add: upstream_request_def request_payload_def user_prompt_def)
  from serve_handler_with_array [OF assms] b show ?thesis
    by (simp only: j)
qed

theorem empty_ingredients_reach_upstream_witness:
  "req_method no_ingredients_request \<noteq> ''OPTIONS'' \<and>
   JSON_parse (sample_runtime (Some ''sk-sample'') recipe_reply) (req_body no_ingredients_request)
     = Inr (JObject [(''ingredients'', JArray [])]) \<and>
   destructure_ingredients (JObject [(''ingredients'', JArray [])])
     = Inr (Some (JArray [] :: nat json)) \<and>
   env_get (sample_runtime (Some ''sk-sample'') recipe_reply) ''LOVABLE_API_KEY'' = Some ''sk-sample'' \<and>
   upstream_reply (sample_runtime (Some ''sk-sample'') recipe_reply) no_ingredients_request
     = Some (Inr recipe_reply) \<and>
   fst (serve_handler (sample_runtime (Some ''sk-sample'') recipe_reply) no_ingredients_request) =
     \<lparr>status = 200,
      headers = [(''Access-Control-Allow-Origin'', ''*''),
                 (''Access-Control-Allow-Headers'', ''authorization, x-client-info, apikey, content-type''),
                 (''Content-Type'', ''application/json'')],
      body = Some ''{\"recipe\":{\"name\":\"Chicken rice\",\"cookingTime\":30}}''\<rparr>"
proof -
  have h1: "req_method no_ingredients_request \<noteq> ''OPTIONS''"
    by (simp add: no_ingredients_request_def)
  note h2 = sample_parse_no_ingredients [of "Some ''sk-sample''" recipe_reply]
  have h3: "destructure_ingredients (JObject [(''ingredients'', JArray [])])
     = Inr (Some (JArray [] :: nat json))"
    by (rule sample_destructure)
  have h4: "env_get (sample_runtime (Some ''sk-sample'') recipe_reply) ''LOVABLE_API_KEY''
              = Some ''sk-sample''"
    by (simp add: sample_runtime_def)
  have h5: "''sk-sample'' \<noteq> []" by simp
  have f: "fetch (sample_runtime (Some ''sk-sample'') recipe_reply) call = Inr recipe_reply" for call
    by (simp add: sample_runtime_def)
  have ru: "fst (respond_upstream (sample_runtime (Some ''sk-sample'') recipe_reply) recipe_reply) =
          Inr \<lparr>status = 200, headers = json_headers,
               body = Some (JSON_stringify (sample_runtime (Some ''sk-sample'') recipe_reply)
                        (JObject [(''recipe'', sample_recipe)]))\<rparr>"
    by (simp add: respond_upstream_def sample_recipe_body sample_recipe_message
        sample_recipe_content)
       (simp add: response_ok_def recipe_reply_def)
  have rendered: "JSON_stringify (sample_runtime (Some ''sk-sample'') recipe_reply)
                    (JObject [(''recipe'', sample_recipe)])
                  = ''{\"recipe\":{\"name\":\"Chicken rice\",\"cookingTime\":30}}''"
    by (simp add: sample_runtime_def) code_simp
  from empty_ingredients_reach_upstream [OF h1 h2 h3 h4 h5] h1 h2 h3 h4 show ?thesis
    by (simp add: f ru rendered json_headers_def corsHeaders_def)
qed


section \<open>Properties of the recipe pages\<close>

lemma insert_row_fresh:
  assumes "current_user call = Some uid" and "failure call = None"
    and "gen_random_uuid call \<notin> row_id ` set table"
  shows "insert_row call uid rname rdata fav table = Inr (table @ [new_row call uid rname rdata fav])"
  using assms by (simp add: insert_row_def)

lemma handleSaveRecipe_inserts:
  assumes "recipe page = Some r" and "current_user call = Some uid" and "failure call = None"
    and "gen_random_uuid call \<notin> row_id ` set table"
  shows "snd (handleSaveRecipe call (page, table)) = table @ [new_row call uid (name r) r False]"
    and "recipe (fst (handleSaveRecipe call (page, table))) = Some r"
    and "isSaved (fst (handleSaveRecipe call (page, table)))"
  using assms by (simp_all add: handleSaveRecipe_def insert_row_fresh)

lemma handleFavoriteRecipe_inserts:
  assumes "recipe page = Some r" and "current_user call = Some uid" and "failure call = None"
    and "gen_random_uuid call \<notin> row_id ` set table"
  shows "snd (handleFavoriteRecipe call (page, table)) = table @ [new_row call uid (name r) r True]"
    and "isFavorited (fst (handleFavoriteRecipe call (page, table)))"
  using assms by (simp_all add: handleFavoriteRecipe_def insert_row_fresh)

lemma insert_row_keeps_rows:
  "insert_row call uid rname rdata fav table = Inr table' \<Longrightarrow> prefix table table'"
  by (auto simp: insert_row_def split: option.splits if_splits)

lemma handleFavoriteRecipe_keeps_rows:
  "prefix table (snd (handleFavoriteRecipe call (page, table)))"
  by (auto simp: handleFavoriteRecipe_def dest: insert_row_keeps_rows
      split: option.splits sum.splits)

lemma handleSaveRecipe_keeps_rows:
  "prefix table (snd (handleSaveRecipe call (page, table)))"
  by (auto simp: handleSaveRecipe_def dest: insert_row_keeps_rows
      split: option.splits sum.splits)

lemma tabs_partition:
  "mset (savedRecipes rows) + mset (favoriteRecipes rows) = mset rows"
  "set (savedRecipes rows) \<inter> set (favoriteRecipes rows) = {}"
  "row \<in> set rows \<Longrightarrow> (row \<in> set (savedRecipes rows)) \<noteq> (row \<in> set (favoriteRecipes rows))"
  by (auto simp: savedRecipes_def favoriteRecipes_def)

lemma set_fetchSavedRecipes:
  assumes "current_user call = Some uid" and "failure call = None"
  shows "set (fetchSavedRecipes call table) = {row \<in> set table. user_id row = uid}"
  using assms by (auto simp: fetchSavedRecipes_def)


text \<open>
  C10. When the store accepts the inserts (the user is signed in, no failure, fresh
  identifiers), Save appends a row with \<^verbatim>\<open>is_favorite\<close> false and Favorite, clicked
  after it, appends a second row with \<^verbatim>\<open>is_favorite\<close> true and another identifier. The
  Favorite action never changes a row that is already there: the table before it is a
  prefix of the table after it, whatever the call and the page. The two tabs partition any
  list of fetched rows: every row is in exactly one of them. So after Save and Favorite
  the listing shows the saved row under "Saved Recipes" only and the favorite row under
  "Favorites" only.
\<close>

theorem save_and_favorite_insert_separate_rows:
  assumes "recipe (page :: 'n recipe_page) = Some r"
    and "current_user save_call = Some uid" and "failure save_call = None"
    and "gen_random_uuid save_call \<notin> row_id ` set table"
    and "current_user favorite_call = Some uid" and "failure favorite_call = None"
    and "gen_random_uuid favorite_call \<notin> row_id ` set table"
    and "gen_random_uuid favorite_call \<noteq> gen_random_uuid save_call"
    and "current_user list_call = Some uid" and "failure list_call = None"
  shows "snd (handleSaveRecipe save_call (page, table))
           = table @ [new_row save_call uid (name r) r False] \<and>
         snd (handleFavoriteRecipe favorite_call (handleSaveRecipe save_call (page, table)))
           = table @ [new_row save_call uid (name r) r False,
                      new_row favorite_call uid (name r) r True] \<and>
         \<not> is_favorite (new_row save_call uid (name r) r False) \<and>
         is_favorite (new_row favorite_call uid (name r) r True) \<and>
         row_id (new_row save_call uid (name r) r False)
           \<noteq> row_id (new_row favorite_call uid (name r) r True) \<and>
         (\<forall>any_call any_page (rows :: 'n saved_recipe list).
            prefix rows (snd (handleFavoriteRecipe any_call (any_page, rows)))) \<and>
         (\<forall>rows :: 'n saved_recipe list.
            mset (savedRecipes rows) + mset (favoriteRecipes rows) = mset rows \<and>
            (\<forall>row \<in> set rows.
               (row \<in> set (savedRecipes rows)) \<noteq> (row \<in> set (favoriteRecipes rows)))) \<and>
         (let recipes =
                fetchSavedRecipes list_call
                  (snd (handleFavoriteRecipe favorite_call
                          (handleSaveRecipe save_call (page, table))))
          in new_row save_call uid (name r) r False \<in> set (savedRecipes recipes) \<and>
             new_row save_call uid (name r) r False \<notin> set (favoriteRecipes recipes) \<and>
             new_row favorite_call uid (name r) r True \<in> set (favoriteRecipes recipes) \<and>
             new_row favorite_call uid (name r) r True \<notin> set (savedRecipes recipes))"
proof -
  let ?saved = "new_row save_call uid (name r) r False"
  let ?fav = "new_row favorite_call uid (name r) r True"
  obtain page1 where st1: "handleSaveRecipe save_call (page, table) = (page1, table @ [?saved])"
    and r1: "recipe page1 = Some r"
    using handleSaveRecipe_inserts(1,2) [OF assms(1-4)]
    by (cases "handleSaveRecipe save_call (page, table)") simp
  have fresh: "gen_random_uuid favorite_call \<notin> row_id ` set (table @ [?saved])"
    using assms(7,8) by (simp add: new_row_def)
  have st2: "snd (handleFavoriteRecipe favorite_call (handleSaveRecipe save_call (page, table)))
               = table @ [?saved, ?fav]"
    using handleFavoriteRecipe_inserts(1) [OF r1 assms(5,6) fresh] by (simp add: st1)
  have flags: "\<not> is_favorite ?saved" "is_favorite ?fav" "row_id ?saved \<noteq> row_id ?fav"
    "user_id ?saved = uid" "user_id ?fav = uid"
    using assms(8) by (simp_all add: new_row_def)
  have fetched: "set (fetchSavedRecipes list_call (table @ [?saved, ?fav]))
                   = {row \<in> set (table @ [?saved, ?fav]). user_id row = uid}"
    by (rule set_fetchSavedRecipes [OF assms(9,10)])
  have tabs: "?saved \<in> set (savedRecipes (fetchSavedRecipes list_call (table @ [?saved, ?fav])))"
    "?saved \<notin> set (favoriteRecipes (fetchSavedRecipes list_call (table @ [?saved, ?fav])))"
    "?fav \<in> set (favoriteRecipes (fetchSavedRecipes list_call (table @ [?saved, ?fav])))"
    "?fav \<notin> set (savedRecipes (fetchSavedRecipes list_call (table @ [?saved, ?fav])))"
    using flags by (simp_all add: savedRecipes_def favoriteRecipes_def fetched)
  have part: "mset (savedRecipes rows) + mset (favoriteRecipes rows) = mset rows \<and>
            (\<forall>row \<in> set rows.
               (row \<in> set (savedRecipes rows)) \<noteq> (row \<in> set (favoriteRecipes rows)))"
    for rows :: "'n saved_recipe list"
    using tabs_partition(1,3) [where rows = rows] by blast
  have keep: "\<forall>any_call any_page (rows :: 'n saved_recipe list).
            prefix rows (snd (handleFavoriteRecipe any_call (any_page, rows)))"
    by (intro allI) (rule handleFavoriteRecipe_keeps_rows)
  show ?thesis
    using handleSaveRecipe_inserts(1) [OF assms(1-4)] st2 flags(1-3) tabs part keep
    by (simp add: Let_def)
qed

theorem save_and_favorite_insert_separate_rows_witness:
  "recipe fresh_page = Some chicken_rice \<and>
   current_user (store_call_at ''row-1'' 100) = Some ''user-1'' \<and>
   failure (store_call_at ''row-1'' 100) = None \<and>
   gen_random_uuid (store_call_at ''row-1'' 100) \<notin> row_id ` set ([] :: nat saved_recipe list) \<and>
   gen_random_uuid (store_call_at ''row-2'' 200) \<noteq> gen_random_uuid (store_call_at ''row-1'' 100) \<and>
   snd (handleFavoriteRecipe (store_call_at ''row-2'' 200)
          (handleSaveRecipe (store_call_at ''row-1'' 100) (fresh_page, [])))
     = [\<lparr>row_id = ''row-1'', user_id = ''user-1'', recipe_name = ''Chicken rice'',
         recipe_data = chicken_rice, is_favorite = False, created_at = 100, updated_at = 100\<rparr>,
        \<lparr>row_id = ''row-2'', user_id = ''user-1'', recipe_name = ''Chicken rice'',
         recipe_data = chicken_rice, is_favorite = True, created_at = 200, updated_at = 200\<rparr>] \<and>
   savedRecipes (fetchSavedRecipes (store_call_at ''row-3'' 300)
       (snd (handleFavoriteRecipe (store_call_at ''row-2'' 200)
               (handleSaveRecipe (store_call_at ''row-1'' 100) (fresh_page, [])))))
     = [\<lparr>row_id = ''row-1'', user_id = ''user-1'', recipe_name = ''Chicken rice'',
         recipe_data = chicken_rice, is_favorite = False, created_at = 100, updated_at = 100\<rparr>] \<and>
   favoriteRecipes (fetchSavedRecipes (store_call_at ''row-3'' 300)
       (snd (handleFavoriteRecipe (store_call_at ''row-2'' 200)
               (handleSaveRecipe (store_call_at ''row-1'' 100) (fresh_page, [])))))
     = [\<lparr>row_id = ''row-2'', user_id = ''user-1'', recipe_name = ''Chicken rice'',
         recipe_data = chicken_rice, is_favorite = True, created_at = 200, updated_at = 200\<rparr>]"
proof -
  have h1: "recipe fresh_page = Some chicken_rice"
    by (simp add: fresh_page_def)
  have h2: "current_user (store_call_at new_id instant) = Some ''user-1''"
    "failure (store_call_at new_id instant) = None" for new_id instant
    by (simp_all add: store_call_at_def)
  have h3: "gen_random_uuid (store_call_at ''row-1'' 100) \<notin> row_id ` set ([] :: nat saved_recipe list)"
    "gen_random_uuid (store_call_at ''row-2'' 200) \<notin> row_id ` set ([] :: nat saved_recipe list)"
    by simp_all
  have h4: "gen_random_uuid (store_call_at ''row-2'' 200) \<noteq> gen_random_uuid (store_call_at ''row-1'' 100)"
    by (simp add: store_call_at_def)
  have n: "name chicken_rice = ''Chicken rice''"
    by (simp add: chicken_rice_def)
  from save_and_favorite_insert_separate_rows
    [OF h1 h2 h3(1) h2 h3(2) h4 h2 [of "''row-3''" 300]]
  have both: "snd (handleFavoriteRecipe (store_call_at ''row-2'' 200)
          (handleSaveRecipe (store_call_at ''row-1'' 100) (fresh_page, [])))
     = [new_row (store_call_at ''row-1'' 100) ''user-1'' (name chicken_rice) chicken_rice False,
        new_row (store_call_at ''row-2'' 200) ''user-1'' (name chicken_rice) chicken_rice True]"
    by (elim conjE) simp
  show ?thesis
    using h1 h2 h3 h4 unfolding both
    by (simp add: n new_row_def store_call_at_def fetchSavedRecipes_def
        savedRecipes_def favoriteRecipes_def)
qed


end
